theory Spec2Isabelle
  imports Complex_Main "HOL-Library.Sublist"
begin

section \<open>Python values, exceptions and dictionaries\<close>

text \<open>
  Every exception the modelled code can raise is a value of \<open>error\<close>; a function that
  can raise returns \<open>error + 'a\<close> with \<open>Inl\<close> for the exception. Python floats
  are idealised as reals.
\<close>

datatype error =
  AssertionError | ValueError | TypeError | KeyError | IndexError | RuntimeError
  | NodeNotFound | NetworkXError

text \<open>
  A cost dictionary holds Python values. Two kinds occur in the code: numbers, and (in
  the vector \<open>purify_reduce\<close> builds) function objects taken from the conversion
  table.
\<close>

datatype pyval = Num real | Func "real \<Rightarrow> real"

text \<open>
  A Python \<open>dict\<close> keeps insertion order, and the code iterates over dictionaries, so
  a dictionary is an association list with distinct keys. \<open>d[k] = v\<close> overwrites in
  place when \<open>k\<close> is present and appends otherwise; lookup is \<open>map_of\<close>.
\<close>

type_synonym cost_vector = "(string \<times> pyval) list"

fun dict_set :: "('k \<times> 'v) list \<Rightarrow> 'k \<Rightarrow> 'v \<Rightarrow> ('k \<times> 'v) list" where
  "dict_set [] k v = [(k, v)]"
| "dict_set ((k', v') # d) k v =
     (if k' = k then (k, v) # d else (k', v') # dict_set d k v)"

section \<open>The network snapshot\<close>

text \<open>
  A node of the network is an object of one of four classes; \<open>isinstance(node,
  QNET.Ground)\<close> is \<open>kind node = Ground\<close>. Every node carries its own cost dictionary
  \<open>costs\<close>, and a swapper its \<open>swap_prob\<close>. Nodes are identified by \<open>name\<close>.
\<close>

datatype qnode_type = Plain | Ground | Swapper | Satellite

record qnode =
  name :: string
  kind :: qnode_type
  costs :: cost_vector
  swap_prob :: real

text \<open>
  The snapshot is an undirected multigraph: an edge is its two end nodes, its key among
  the parallel edges of that pair, and its attribute dictionary. \<open>conversions\<close> maps a
  cost name to its pair (to additive form, back to plain form), indexed \<open>[0]\<close> and
  \<open>[1]\<close> by the code. \<open>copy.deepcopy\<close> is the identity on values.
\<close>

type_synonym edge = "string \<times> string \<times> nat \<times> cost_vector"

record qnet =
  nodes :: "qnode list"
  edges :: "edge list"
  conversions :: "string \<Rightarrow> ((real \<Rightarrow> real) \<times> (real \<Rightarrow> real)) option"

definition joins :: "edge \<Rightarrow> string \<Rightarrow> string \<Rightarrow> bool" where
  "joins e u v = (case e of (a, b, k, d) \<Rightarrow> a = u \<and> b = v \<or> a = v \<and> b = u)"

definition edge_key :: "edge \<Rightarrow> nat" where
  "edge_key e = (case e of (a, b, k, d) \<Rightarrow> k)"

definition edge_data :: "edge \<Rightarrow> cost_vector" where
  "edge_data e = (case e of (a, b, k, d) \<Rightarrow> d)"

text \<open>
  Modelled from the spec: \<open>Qnet.getNode\<close> is not among the sources; section 6 lists
  it as node lookup by name, and the code tests its result against \<open>None\<close>.
\<close>

definition getNode :: "qnet \<Rightarrow> string \<Rightarrow> qnode option" where
  "getNode G n = find (\<lambda>x. name x = n) (nodes G)"

text \<open>
  The networkx operations the code calls. \<open>get_edge_data(u, v, key)\<close> returns the
  attribute dictionary, or \<open>None\<close> when there is no such edge. \<open>(u, v) in G.edges()\<close>
  holds when some edge joins the two nodes. \<open>remove_edge(u, v, key)\<close> raises
  NetworkXError when there is no such edge. \<open>remove_nodes_from\<close> deletes the listed
  nodes with the edges at them.
\<close>

definition get_edge_data :: "qnet \<Rightarrow> string \<Rightarrow> string \<Rightarrow> nat \<Rightarrow> cost_vector option" where
  "get_edge_data G u v key =
     map_option edge_data (find (\<lambda>e. joins e u v \<and> edge_key e = key) (edges G))"

definition has_edge :: "qnet \<Rightarrow> string \<Rightarrow> string \<Rightarrow> bool" where
  "has_edge G u v = list_ex (\<lambda>e. joins e u v) (edges G)"

fun del_first :: "('a \<Rightarrow> bool) \<Rightarrow> 'a list \<Rightarrow> 'a list" where
  "del_first P [] = []"
| "del_first P (x # xs) = (if P x then xs else x # del_first P xs)"

definition remove_edge :: "qnet \<Rightarrow> string \<Rightarrow> string \<Rightarrow> nat \<Rightarrow> error + qnet" where
  "remove_edge G u v key =
     (if list_ex (\<lambda>e. joins e u v \<and> edge_key e = key) (edges G)
      then Inr (G\<lparr>edges := del_first (\<lambda>e. joins e u v \<and> edge_key e = key) (edges G)\<rparr>)
      else Inl NetworkXError)"

definition remove_nodes_from :: "qnet \<Rightarrow> string list \<Rightarrow> qnet" where
  "remove_nodes_from G ns =
     G\<lparr>nodes := filter (\<lambda>x. name x \<notin> set ns) (nodes G),
       edges := filter (\<lambda>(a, b, k, d). a \<notin> set ns \<and> b \<notin> set ns) (edges G)\<rparr>"

text \<open>
  \<open>networkx.has_path(G, source, target)\<close>. An end is the name of a node object, or
  \<open>None\<close>, which is what a failed \<open>getNode\<close> hands on. With both ends given,
  NodeNotFound is raised when one of them is not a node of the graph, and otherwise the
  answer is whether the target is reachable. With \<open>None\<close> for an end, networkx
  computes the shortest paths from or to all nodes instead (NodeNotFound when the end
  that is given is not a node) and \<open>has_path\<close> answers \<open>True\<close>. Reachability is
  computed by closing the set of seen nodes under \<open>neighbors\<close> once per node of the
  graph.
\<close>

definition neighbors :: "qnet \<Rightarrow> string \<Rightarrow> string list" where
  "neighbors G u =
     concat (map (\<lambda>(a, b, k, d). (if a = u then [b] else []) @ (if b = u then [a] else []))
       (edges G))"

fun reach :: "qnet \<Rightarrow> nat \<Rightarrow> string list \<Rightarrow> string list" where
  "reach G 0 seen = seen"
| "reach G (Suc n) seen = reach G n (remdups (seen @ concat (map (neighbors G) seen)))"

definition has_path :: "qnet \<Rightarrow> string option \<Rightarrow> string option \<Rightarrow> error + bool" where
  "has_path G source target =
     (case (source, target) of
        (Some s, Some t) \<Rightarrow>
          if s \<in> name ` set (nodes G) \<and> t \<in> name ` set (nodes G)
          then Inr (t \<in> set (reach G (length (nodes G)) [s]))
          else Inl NodeNotFound
      | (Some s, None) \<Rightarrow> if s \<in> name ` set (nodes G) then Inr True else Inl NodeNotFound
      | (None, Some t) \<Rightarrow> if t \<in> name ` set (nodes G) then Inr True else Inl NodeNotFound
      | (None, None) \<Rightarrow> Inr True)"

text \<open>
  Modelled from the spec: \<open>Qnet.add_qchan\<close> is not among the sources. Section 6 has it
  as edge insertion, and section 3 asks that a key be unique within its node pair: the
  new edge gets the key networkx gives it (the number of parallel edges of the pair, or
  the next free number after it) and the keyword arguments as its attribute dictionary.
  The spec does not say what happens when an end is \<open>None\<close>; here the call fails with
  ValueError, as the \<open>add_edge\<close> of networkx does.
\<close>

definition new_edge_key :: "qnet \<Rightarrow> string \<Rightarrow> string \<Rightarrow> nat" where
  "new_edge_key G u v =
     (let ks = map edge_key (filter (\<lambda>e. joins e u v) (edges G))
      in hd (filter (\<lambda>k. k \<notin> set ks) [length ks ..< Suc (2 * length ks)]))"

definition add_qchan ::
  "qnet \<Rightarrow> string option \<Rightarrow> string option \<Rightarrow> cost_vector \<Rightarrow> error + qnet" where
  "add_qchan G u v cv =
     (case (u, v) of
        (Some a, Some b) \<Rightarrow> Inr (G\<lparr>edges := edges G @ [(a, b, new_edge_key G a b, cv)]\<rparr>)
      | _ \<Rightarrow> Inl ValueError)"

section \<open>Path.py\<close>

text \<open>
  \<open>collections.Counter\<close>, as \<open>sum_cost_vectors\<close> uses it. \<open>update(None)\<close> changes
  nothing; \<open>update(d)\<close> on an empty counter copies \<open>d\<close>; otherwise every item of
  \<open>d\<close> is added to the count already there (0 when there is none), and adding anything
  but two numbers is a TypeError.
\<close>

fun py_add :: "pyval \<Rightarrow> pyval \<Rightarrow> error + pyval" where
  "py_add (Num a) (Num b) = Inr (Num (a + b))"
| "py_add _ _ = Inl TypeError"

fun counter_add :: "cost_vector \<Rightarrow> cost_vector \<Rightarrow> error + cost_vector" where
  "counter_add counter [] = Inr counter"
| "counter_add counter ((elem, count) # items) =
     (case py_add count (case map_of counter elem of None \<Rightarrow> Num 0 | Some c \<Rightarrow> c) of
        Inl e \<Rightarrow> Inl e
      | Inr s \<Rightarrow> counter_add (dict_set counter elem s) items)"

definition counter_update :: "cost_vector \<Rightarrow> cost_vector option \<Rightarrow> error + cost_vector" where
  "counter_update counter d =
     (case d of
        None \<Rightarrow> Inr counter
      | Some items \<Rightarrow> (case counter of [] \<Rightarrow> Inr items | _ # _ \<Rightarrow> counter_add counter items))"

fun sum_into :: "cost_vector \<Rightarrow> cost_vector option list \<Rightarrow> error + cost_vector" where
  "sum_into counter [] = Inr counter"
| "sum_into counter (d # ds) =
     (case counter_update counter d of Inl e \<Rightarrow> Inl e | Inr c \<Rightarrow> sum_into c ds)"

definition sum_cost_vectors :: "cost_vector option list \<Rightarrow> error + cost_vector" where
  "sum_cost_vectors cv_list = sum_into [] cv_list"

text \<open>Python's \<open>str.startswith\<close>.\<close>

definition startswith :: "string \<Rightarrow> string \<Rightarrow> bool" where
  "startswith s p = prefix p s"

text \<open>
  Modelled from the spec: \<open>QNET.remove_prefix\<close> is not among the sources. The code
  calls it on a name that starts with the additive marker \<open>add_\<close> to get the plain
  name (section 3: the dimension \<open>x\<close> has the additive counterpart \<open>add_x\<close>); a
  name without the prefix is left as it is.
\<close>

definition remove_prefix :: "string \<Rightarrow> string \<Rightarrow> string" where
  "remove_prefix s p = (if prefix p s then drop (length p) s else s)"

text \<open>
  Lines 107-114 of \<open>get_cost_vector\<close>: \<open>for cost_type in new_cv\<close>, writing into
  \<open>new_cv\<close> inside the loop. The iterator walks the keys the dictionary had when the
  loop began (\<open>n\<close> of them); it raises RuntimeError on its next step, the one that
  would end the loop included, once the dictionary's size has changed. An assignment to
  a key already present keeps size and order. A plain name without a registered
  conversion is a KeyError; a conversion applied to a value that is not a number is
  taken to raise TypeError.
\<close>

fun convert_additive ::
  "(string \<Rightarrow> ((real \<Rightarrow> real) \<times> (real \<Rightarrow> real)) option) \<Rightarrow> nat \<Rightarrow> string list
     \<Rightarrow> cost_vector \<Rightarrow> error + cost_vector" where
  "convert_additive conv n [] new_cv =
     (if length new_cv = n then Inr new_cv else Inl RuntimeError)"
| "convert_additive conv n (cost_type # rest) new_cv =
     (if length new_cv = n then
        (if startswith cost_type ''add_'' then
           (case map_of new_cv cost_type of
              None \<Rightarrow> Inl KeyError
            | Some cost \<Rightarrow>
                (case conv (remove_prefix cost_type ''add_'') of
                   None \<Rightarrow> Inl KeyError
                 | Some (to_add, to_plain) \<Rightarrow>
                     (case cost of
                        Num c \<Rightarrow>
                          convert_additive conv n rest
                            (dict_set new_cv (remove_prefix cost_type ''add_'') (Num (to_plain c)))
                      | Func g \<Rightarrow> Inl TypeError)))
         else convert_additive conv n rest new_cv)
      else Inl RuntimeError)"

text \<open>
  Lines 83-91: the attribute dictionary of the edge between each node and the next,
  under the key \<open>edge_keys[i]\<close> (IndexError when the key list is too short); the
  entry is \<open>None\<close> when the graph has no such edge.
\<close>

fun edge_cvs :: "qnet \<Rightarrow> qnode list \<Rightarrow> nat list \<Rightarrow> error + cost_vector option list" where
  "edge_cvs G (cur # nxt # rest) ks =
     (case ks of
        [] \<Rightarrow> Inl IndexError
      | k # ks' \<Rightarrow>
          (case edge_cvs G (nxt # rest) ks' of
             Inl e \<Rightarrow> Inl e
           | Inr cvs \<Rightarrow> Inr (get_edge_data G (name cur) (name nxt) k # cvs)))"
| "edge_cvs G [cur] ks = Inr []"
| "edge_cvs G [] ks = Inr []"

definition get_cost_vector :: "qnet \<Rightarrow> qnode list \<Rightarrow> nat list \<Rightarrow> error + cost_vector" where
  "get_cost_vector G node_arr keys =
     (case edge_cvs G node_arr keys of
        Inl e \<Rightarrow> Inl e
      | Inr element_cvs \<Rightarrow>
          (case sum_cost_vectors (element_cvs @ map (\<lambda>node. Some (costs node)) node_arr) of
             Inl e \<Rightarrow> Inl e
           | Inr new_cv \<Rightarrow>
               convert_additive (conversions G) (length new_cv) (map fst new_cv) new_cv))"

text \<open>
  A \<open>Path\<close> object. Its graph \<open>self.G\<close> is the graph it was built on, which the
  functions below take as an argument.
\<close>

record path =
  node_array :: "qnode list"
  edge_keys :: "nat list"
  cost_vector :: cost_vector

text \<open>Lines 53-57: every node and the next are joined by some edge of the graph.\<close>

fun pairs_in_edges :: "qnet \<Rightarrow> qnode list \<Rightarrow> bool" where
  "pairs_in_edges G (cur # nxt # rest) =
     (has_edge G (name cur) (name nxt) \<and> pairs_in_edges G (nxt # rest))"
| "pairs_in_edges G [cur] = True"
| "pairs_in_edges G [] = True"

text \<open>
  \<open>Path.__init__\<close>: the nodes are looked up (a missing one fails the assertion of line
  37), the keys default to 0, \<open>node_array[0]\<close> raises IndexError on an empty
  sequence, the cost vector is computed, and only then the node pairs are checked.
\<close>

definition Path_init :: "qnet \<Rightarrow> string list \<Rightarrow> nat list option \<Rightarrow> error + path" where
  "Path_init G array keys =
     (case those (map (getNode G) array) of
        None \<Rightarrow> Inl AssertionError
      | Some node_arr \<Rightarrow>
          (let ks = (case keys of None \<Rightarrow> replicate (length node_arr - 1) 0 | Some given \<Rightarrow> given)
           in case node_arr of
                [] \<Rightarrow> Inl IndexError
              | _ # _ \<Rightarrow>
                  (case get_cost_vector G node_arr ks of
                     Inl e \<Rightarrow> Inl e
                   | Inr cv \<Rightarrow>
                       if pairs_in_edges G node_arr
                       then Inr \<lparr>node_array = node_arr, edge_keys = ks, cost_vector = cv\<rparr>
                       else Inl AssertionError)))"

text \<open>
  \<open>Path.remove_edges\<close> on the current state of the path's graph. An exception leaves
  the graph half changed, but then no caller looks at it again.
\<close>

fun remove_edges_from :: "qnet \<Rightarrow> qnode list \<Rightarrow> nat list \<Rightarrow> error + qnet" where
  "remove_edges_from G (cur # nxt # rest) ks =
     (case ks of
        [] \<Rightarrow> Inl IndexError
      | key # ks' \<Rightarrow>
          (case remove_edge G (name cur) (name nxt) key of
             Inl e \<Rightarrow> Inl e
           | Inr G' \<Rightarrow> remove_edges_from G' (nxt # rest) ks'))"
| "remove_edges_from G [cur] ks = Inr G"
| "remove_edges_from G [] ks = Inr G"

definition remove_edges :: "qnet \<Rightarrow> path \<Rightarrow> error + qnet" where
  "remove_edges G p = remove_edges_from G (node_array p) (edge_keys p)"

text \<open>
  \<open>Path.swap_path\<close>. The loop of lines 173-183 carries \<open>ground_switch\<close>, the one
  remembered \<open>swapper\<close>, and the list \<open>swap_costs\<close>.
\<close>

fun swap_scan :: "qnode list \<Rightarrow> bool \<Rightarrow> qnode option \<Rightarrow> real list \<Rightarrow> real list" where
  "swap_scan [] ground_switch swapper swap_costs = swap_costs"
| "swap_scan (node # rest) ground_switch swapper swap_costs =
     (let (ground_switch', swapper', swap_costs') =
            (if kind node = Ground then
               (if \<not> ground_switch then (True, swapper, swap_costs)
                else (case swapper of
                        Some s \<Rightarrow> (ground_switch, None, swap_costs @ [swap_prob s])
                      | None \<Rightarrow> (ground_switch, swapper, swap_costs)))
             else (ground_switch, swapper, swap_costs))
      in swap_scan rest ground_switch'
           (if kind node = Swapper \<and> ground_switch' then Some node else swapper')
           swap_costs')"

definition swap_path :: "path \<Rightarrow> error + cost_vector" where
  "swap_path p =
     (let swap_cost = foldl (\<lambda>swap_cost cost. swap_cost * cost) 1
                        (swap_scan (node_array p) False None [])
      in case map_of (cost_vector p) ''e'' of
           None \<Rightarrow> Inl KeyError
         | Some (Num e) \<Rightarrow> Inr (dict_set (cost_vector p) ''e'' (Num (e * swap_cost)))
         | Some (Func g) \<Rightarrow> Inl TypeError)"

section \<open>Best-path search\<close>

text \<open>
  Modelled from the spec: \<open>QNET.best_path\<close> is not among the sources. Section 4.2:
  among all simple paths between head and tail, the one whose cost vector has the
  largest value of the named dimension for \<open>f\<close> and \<open>e\<close>, the smallest for any other
  dimension, the first found among equals. The simple paths are enumerated depth
  first along the edge list, every parallel edge giving a path of its own, and each is
  built with \<open>Path_init\<close>. The spec does not say what the search does when there
  is no path, or when an end is \<open>None\<close>; here it fails, with NetworkXError and with
  AssertionError. The reductions take the search as a parameter \<open>bp\<close>; this
  definition is the instance used for concrete networks.
\<close>

fun simple_paths ::
  "nat \<Rightarrow> qnet \<Rightarrow> string list \<Rightarrow> string \<Rightarrow> string \<Rightarrow> (string list \<times> nat list) list" where
  "simple_paths 0 G visited u t = []"
| "simple_paths (Suc n) G visited u t =
     (if u = t then [([u], [])]
      else concat (map (\<lambda>(a, b, k, d).
             (let w = (if a = u then b else a)
              in if (a = u \<or> b = u) \<and> w \<notin> set (u # visited)
                 then map (\<lambda>(ns, ks). (u # ns, k # ks)) (simple_paths n G (u # visited) w t)
                 else []))
           (edges G)))"

fun build_paths :: "qnet \<Rightarrow> (string list \<times> nat list) list \<Rightarrow> error + path list" where
  "build_paths G [] = Inr []"
| "build_paths G ((ns, ks) # rest) =
     (case Path_init G ns (Some ks) of
        Inl e \<Rightarrow> Inl e
      | Inr p \<Rightarrow> (case build_paths G rest of Inl e \<Rightarrow> Inl e | Inr ps \<Rightarrow> Inr (p # ps)))"

definition cost_of :: "path \<Rightarrow> string \<Rightarrow> error + real" where
  "cost_of p cost_type =
     (case map_of (cost_vector p) cost_type of
        None \<Rightarrow> Inl KeyError
      | Some (Num c) \<Rightarrow> Inr c
      | Some (Func g) \<Rightarrow> Inl TypeError)"

fun pick_best :: "string \<Rightarrow> path \<Rightarrow> real \<Rightarrow> path list \<Rightarrow> error + path" where
  "pick_best cost_type best c [] = Inr best"
| "pick_best cost_type best c (p # ps) =
     (case cost_of p cost_type of
        Inl e \<Rightarrow> Inl e
      | Inr c' \<Rightarrow>
          if (if cost_type = ''f'' \<or> cost_type = ''e'' then c < c' else c' < c)
          then pick_best cost_type p c' ps
          else pick_best cost_type best c ps)"

definition best_path ::
  "qnet \<Rightarrow> string option \<Rightarrow> string option \<Rightarrow> string \<Rightarrow> error + path" where
  "best_path G head tail cost_type =
     (case (head, tail) of
        (Some h, Some t) \<Rightarrow>
          (case build_paths G (simple_paths (length (nodes G)) G [] h t) of
             Inl e \<Rightarrow> Inl e
           | Inr [] \<Rightarrow> Inl NetworkXError
           | Inr (p # ps) \<Rightarrow>
               (case cost_of p cost_type of
                  Inl e \<Rightarrow> Inl e
                | Inr c \<Rightarrow> pick_best cost_type p c ps))
      | _ \<Rightarrow> Inl AssertionError)"

section \<open>Reductions.py\<close>

text \<open>
  The assertions of lines 22-24 and 121-123. The threshold is an \<open>int\<close> or \<open>None\<close>.
\<close>

definition threshold_ok :: "int option \<Rightarrow> bool" where
  "threshold_ok threshold = (case threshold of None \<Rightarrow> True | Some t \<Rightarrow> 0 < t)"

text \<open>
  The loop of lines 38-45, on the working copy \<open>C\<close>. Its \<open>head\<close> and \<open>tail\<close> are
  what \<open>getNode\<close> returned in lines 30-31: a node, or \<open>None\<close>. It may run forever (a search
  that hands back a path without edges removes nothing), so not returning is the value
  \<open>None\<close>. The loop ends when head and tail are no longer connected, or at the
  \<open>break\<close> of line 41, taken when a threshold is set and \<open>path_counter > threshold\<close>
  (\<open>over_threshold\<close>).
\<close>

definition over_threshold :: "int option \<Rightarrow> nat \<Rightarrow> bool" where
  "over_threshold threshold path_counter =
     (case threshold of None \<Rightarrow> False | Some t \<Rightarrow> t < int path_counter)"

partial_function (option) purify_loop ::
  "(qnet \<Rightarrow> string option \<Rightarrow> string option \<Rightarrow> string \<Rightarrow> error + path) \<Rightarrow> int option
     \<Rightarrow> string option \<Rightarrow> string option \<Rightarrow> qnet \<Rightarrow> cost_vector list \<Rightarrow> nat
     \<Rightarrow> (error + qnet \<times> cost_vector list \<times> nat) option" where
  "purify_loop bp threshold head tail C cv_list path_counter =
     (case has_path C head tail of
        Inl e \<Rightarrow> Some (Inl e)
      | Inr linked \<Rightarrow>
          if linked \<and> \<not> over_threshold threshold path_counter
          then (case bp C head tail ''f'' of
                  Inl e \<Rightarrow> Some (Inl e)
                | Inr p \<Rightarrow>
                    (case remove_edges C p of
                       Inl e \<Rightarrow> Some (Inl e)
                     | Inr C' \<Rightarrow>
                         purify_loop bp threshold head tail C'
                           (cv_list @ [cost_vector p]) (Suc path_counter)))
          else Some (Inr (C, cv_list, path_counter)))"

text \<open>
  \<open>[d[key] for d in cv_list]\<close>, \<open>functools.reduce\<close> without an initial value (TypeError
  on an empty list; a one-element list is returned as it is) and \<open>min\<close>.
\<close>

fun dimension :: "string \<Rightarrow> cost_vector list \<Rightarrow> error + pyval list" where
  "dimension key [] = Inr []"
| "dimension key (d # ds) =
     (case map_of d key of
        None \<Rightarrow> Inl KeyError
      | Some v \<Rightarrow> (case dimension key ds of Inl e \<Rightarrow> Inl e | Inr vs \<Rightarrow> Inr (v # vs)))"

fun reduce_from :: "(real \<Rightarrow> real \<Rightarrow> real) \<Rightarrow> pyval \<Rightarrow> pyval list \<Rightarrow> error + pyval" where
  "reduce_from f acc [] = Inr acc"
| "reduce_from f (Num a) (Num b # xs) = reduce_from f (Num (f a b)) xs"
| "reduce_from f acc (x # xs) = Inl TypeError"

definition py_reduce :: "(real \<Rightarrow> real \<Rightarrow> real) \<Rightarrow> pyval list \<Rightarrow> error + pyval" where
  "py_reduce f xs = (case xs of [] \<Rightarrow> Inl TypeError | x # rest \<Rightarrow> reduce_from f x rest)"

fun min_from :: "pyval \<Rightarrow> pyval list \<Rightarrow> error + pyval" where
  "min_from m [] = Inr m"
| "min_from (Num a) (Num b # xs) = min_from (Num (if b < a then b else a)) xs"
| "min_from m (x # xs) = Inl TypeError"

definition py_min :: "pyval list \<Rightarrow> error + pyval" where
  "py_min xs = (case xs of [] \<Rightarrow> Inl ValueError | x # rest \<Rightarrow> min_from x rest)"

text \<open>
  Lines 81-87: for every key of \<open>sum_cv\<close> that is additive-marked and not yet in
  \<open>new_cv\<close>, the sum goes in under the additive name, and under the plain name goes
  \<open>Q.conversions[cost_type][1]\<close>: the conversion itself, which line 86 does not call.
\<close>

fun other_costs ::
  "(string \<Rightarrow> ((real \<Rightarrow> real) \<times> (real \<Rightarrow> real)) option) \<Rightarrow> cost_vector \<Rightarrow> string list
     \<Rightarrow> cost_vector \<Rightarrow> error + cost_vector" where
  "other_costs conv sum_cv [] new_cv = Inr new_cv"
| "other_costs conv sum_cv (cost_type # rest) new_cv =
     (if cost_type \<notin> fst ` set new_cv \<and> startswith cost_type ''add_'' then
        (case map_of sum_cv cost_type of
           None \<Rightarrow> Inl KeyError
         | Some cost \<Rightarrow>
             (case conv (remove_prefix cost_type ''add_'') of
                None \<Rightarrow> Inl KeyError
              | Some (to_add, to_plain) \<Rightarrow>
                  other_costs conv sum_cv rest
                    (dict_set (dict_set new_cv cost_type cost)
                       (remove_prefix cost_type ''add_'') (Func to_plain))))
      else other_costs conv sum_cv rest new_cv)"

text \<open>
  Lines 47-87: the cost vector of the new edge, from the recorded vectors, the counter
  and the measurement probability. \<open>fidTransform\<close> is \<open>QNET.fidTransform\<close>, a
  parameter. In line 65 the exponent is not negative: with no recorded vector the
  \<open>reduce\<close> of line 52 has raised already.
\<close>

definition convert_to_add ::
  "(string \<Rightarrow> ((real \<Rightarrow> real) \<times> (real \<Rightarrow> real)) option) \<Rightarrow> string \<Rightarrow> pyval \<Rightarrow> error + pyval" where
  "convert_to_add conv cost_type v =
     (case conv cost_type of
        None \<Rightarrow> Inl KeyError
      | Some (to_add, to_plain) \<Rightarrow> (case v of Num x \<Rightarrow> Inr (Num (to_add x)) | Func g \<Rightarrow> Inl TypeError))"

definition purify_cost_vector ::
  "(real \<Rightarrow> real \<Rightarrow> real) \<Rightarrow> (string \<Rightarrow> ((real \<Rightarrow> real) \<times> (real \<Rightarrow> real)) option)
     \<Rightarrow> cost_vector list \<Rightarrow> nat \<Rightarrow> real \<Rightarrow> error + cost_vector" where
  "purify_cost_vector fidTransform conv cv_list path_counter prob =
     (case dimension ''f'' cv_list of Inl e \<Rightarrow> Inl e | Inr f_list \<Rightarrow>
      case py_reduce fidTransform f_list of Inl e \<Rightarrow> Inl e | Inr pur_f \<Rightarrow>
      case convert_to_add conv ''f'' pur_f of Inl e \<Rightarrow> Inl e | Inr add_f \<Rightarrow>
      case dimension ''e'' cv_list of Inl e \<Rightarrow> Inl e | Inr e_list \<Rightarrow>
      case py_min e_list of Inl e \<Rightarrow> Inl e | Inr min_e \<Rightarrow>
      case min_e of Func g \<Rightarrow> Inl TypeError | Num m \<Rightarrow>
      let pur_e = Num (m * prob ^ (2 * (path_counter - 1))) in
      case convert_to_add conv ''e'' pur_e of Inl e \<Rightarrow> Inl e | Inr add_e \<Rightarrow>
      case sum_cost_vectors (map Some cv_list) of Inl e \<Rightarrow> Inl e | Inr sum_cv \<Rightarrow>
        other_costs conv sum_cv (map fst sum_cv)
          [(''f'', pur_f), (''add_f'', add_f), (''e'', pur_e), (''add_e'', add_e)])"

text \<open>
  Lines 30-31 and 128-129: \<open>head = C.getNode(head)\<close>. The node found stands for
  itself by its name; a name that is not a node of the copy gives \<open>None\<close>.
\<close>

definition node_ref :: "qnet \<Rightarrow> string \<Rightarrow> string option" where
  "node_ref C n = map_option name (getNode C n)"

text \<open>
  \<open>purify_reduce\<close>. The value returned is \<open>C\<close>, the working copy the loop has removed
  the purified paths from, after \<open>C.add_qchan\<close>; the conversions are read from \<open>Q\<close>.
\<close>

definition purify_reduce ::
  "(qnet \<Rightarrow> string option \<Rightarrow> string option \<Rightarrow> string \<Rightarrow> error + path)
     \<Rightarrow> (real \<Rightarrow> real \<Rightarrow> real) \<Rightarrow> qnet \<Rightarrow> string \<Rightarrow> string \<Rightarrow> int option \<Rightarrow> real
     \<Rightarrow> (error + qnet) option" where
  "purify_reduce bp fidTransform Q head tail threshold prob =
     (if threshold_ok threshold then
        (case purify_loop bp threshold (node_ref Q head) (node_ref Q tail) Q [] 0 of
           None \<Rightarrow> None
         | Some (Inl e) \<Rightarrow> Some (Inl e)
         | Some (Inr (C, cv_list, path_counter)) \<Rightarrow>
             (case purify_cost_vector fidTransform (conversions Q) cv_list path_counter prob of
                Inl e \<Rightarrow> Some (Inl e)
              | Inr new_cv \<Rightarrow> Some (add_qchan C (node_ref Q head) (node_ref Q tail) new_cv)))
      else Some (Inl AssertionError))"

text \<open>
  \<open>swap_reduce\<close>. The loop of lines 134-141 never reads \<open>threshold\<close>; lines 143-145
  (\<open>add_qchans\<close>) add one edge per swapped path.
\<close>

partial_function (option) swap_loop ::
  "(qnet \<Rightarrow> string option \<Rightarrow> string option \<Rightarrow> string \<Rightarrow> error + path)
     \<Rightarrow> string option \<Rightarrow> string option \<Rightarrow> qnet \<Rightarrow> cost_vector list
     \<Rightarrow> (error + qnet \<times> cost_vector list) option" where
  "swap_loop bp head tail C swap_costs =
     (case has_path C head tail of
        Inl e \<Rightarrow> Some (Inl e)
      | Inr linked \<Rightarrow>
          if linked
          then (case bp C head tail ''e'' of
                  Inl e \<Rightarrow> Some (Inl e)
                | Inr p \<Rightarrow>
                    (case swap_path p of
                       Inl e \<Rightarrow> Some (Inl e)
                     | Inr new_cv \<Rightarrow>
                         (case remove_edges C p of
                            Inl e \<Rightarrow> Some (Inl e)
                          | Inr C' \<Rightarrow> swap_loop bp head tail C' (swap_costs @ [new_cv]))))
          else Some (Inr (C, swap_costs)))"

fun add_qchans ::
  "qnet \<Rightarrow> string option \<Rightarrow> string option \<Rightarrow> cost_vector list \<Rightarrow> error + qnet" where
  "add_qchans C head tail [] = Inr C"
| "add_qchans C head tail (cost_vec # rest) =
     (case add_qchan C head tail cost_vec of
        Inl e \<Rightarrow> Inl e
      | Inr C' \<Rightarrow> add_qchans C' head tail rest)"

definition swap_reduce ::
  "(qnet \<Rightarrow> string option \<Rightarrow> string option \<Rightarrow> string \<Rightarrow> error + path) \<Rightarrow> qnet \<Rightarrow> string
     \<Rightarrow> string \<Rightarrow> int option \<Rightarrow> (error + qnet) option" where
  "swap_reduce bp Q head tail threshold =
     (if threshold_ok threshold then
        (case swap_loop bp (node_ref Q head) (node_ref Q tail) Q [] of
           None \<Rightarrow> None
         | Some (Inl e) \<Rightarrow> Some (Inl e)
         | Some (Inr (C, swap_costs)) \<Rightarrow>
             Some (add_qchans C (node_ref Q head) (node_ref Q tail) swap_costs))
      else Some (Inl AssertionError))"

section \<open>What the reductions need from the best-path search\<close>

text \<open>
  A cost vector can be purified when all its values are numbers, it has the dimensions
  \<open>f\<close> and \<open>e\<close>, and every additive-marked key has its plain name registered in the
  conversion table, as \<open>f\<close> and \<open>e\<close> are.
\<close>

definition is_num :: "pyval \<Rightarrow> bool" where
  "is_num v = (case v of Num x \<Rightarrow> True | Func g \<Rightarrow> False)"

definition item_ok ::
  "(string \<Rightarrow> ((real \<Rightarrow> real) \<times> (real \<Rightarrow> real)) option) \<Rightarrow> string \<times> pyval \<Rightarrow> bool" where
  "item_ok conv item =
     (is_num (snd item) \<and>
      (if startswith (fst item) ''add_'' then conv (remove_prefix (fst item) ''add_'') \<noteq> None
       else True))"

definition purifiable ::
  "(string \<Rightarrow> ((real \<Rightarrow> real) \<times> (real \<Rightarrow> real)) option) \<Rightarrow> cost_vector \<Rightarrow> bool" where
  "purifiable conv cv =
     (list_all (item_ok conv) cv \<and> ''f'' \<in> fst ` set cv \<and> ''e'' \<in> fst ` set cv
      \<and> conv ''f'' \<noteq> None \<and> conv ''e'' \<noteq> None)"

text \<open>
  On the working copy \<open>C\<close> the search \<open>bp\<close> is usable by \<open>purify_reduce\<close> when it
  returns a path whose cost vector can be purified and whose edges \<open>remove_edges\<close>
  removes, at least one of them.
\<close>

definition extractable ::
  "(qnet \<Rightarrow> string option \<Rightarrow> string option \<Rightarrow> string \<Rightarrow> error + path) \<Rightarrow> qnet
     \<Rightarrow> string option \<Rightarrow> string option \<Rightarrow> bool" where
  "extractable bp C head tail =
     (case bp C head tail ''f'' of
        Inl e \<Rightarrow> False
      | Inr p \<Rightarrow>
          purifiable (conversions C) (cost_vector p) \<and>
          (case remove_edges C p of
             Inl e \<Rightarrow> False
           | Inr C' \<Rightarrow> length (edges C') < length (edges C)))"






section \<open>MonteCarlo.py: percolation\<close>

text \<open>
  \<open>percolate\<close>. \<open>pair_method\<close> gives the communication pairs (a single pair is the
  one-element list line 48 makes of it). The draws of \<open>random.uniform(0, 1)\<close> are the
  sequence \<open>rng\<close>, read in order; one draw is made for each node that passes the test
  of line 53, \<open>any(node not in item for item in pairs)\<close>.
\<close>

definition in_pair :: "string \<Rightarrow> string \<times> string \<Rightarrow> bool" where
  "in_pair n item = (n = fst item \<or> n = snd item)"

fun kill_list ::
  "(string \<times> string) list \<Rightarrow> real \<Rightarrow> (nat \<Rightarrow> real) \<Rightarrow> nat \<Rightarrow> qnode list \<Rightarrow> string list" where
  "kill_list pairs prob rng k [] = []"
| "kill_list pairs prob rng k (node # rest) =
     (if list_ex (\<lambda>item. \<not> in_pair (name node) item) pairs then
        (if rng k < prob then name node # kill_list pairs prob rng (Suc k) rest
         else kill_list pairs prob rng (Suc k) rest)
      else kill_list pairs prob rng k rest)"

definition percolate ::
  "qnet \<Rightarrow> real \<Rightarrow> (qnet \<Rightarrow> (string \<times> string) list) \<Rightarrow> (nat \<Rightarrow> real)
     \<Rightarrow> qnet \<times> (string \<times> string) list" where
  "percolate Q prob pair_method rng =
     (let pairs = pair_method Q
      in (remove_nodes_from Q (kill_list pairs prob rng 0 (nodes Q)), pairs))"

text \<open>
  \<open>reduce_graph\<close>: percolate, return the pair \<open>(None, None)\<close> (here \<open>Inr None\<close>) as
  soon as a pair has no path, otherwise reduce between the first pair. The nodes of a
  pair are node objects, never \<open>None\<close>.
\<close>

fun pairs_connected :: "qnet \<Rightarrow> (string \<times> string) list \<Rightarrow> error + bool" where
  "pairs_connected P [] = Inr True"
| "pairs_connected P (pair # rest) =
     (case has_path P (Some (fst pair)) (Some (snd pair)) of
        Inl e \<Rightarrow> Inl e
      | Inr linked \<Rightarrow> if linked then pairs_connected P rest else Inr False)"

definition reduce_graph ::
  "qnet \<Rightarrow> (qnet \<Rightarrow> (string \<times> string) list) \<Rightarrow> real
     \<Rightarrow> (qnet \<Rightarrow> string \<Rightarrow> string \<Rightarrow> (error + qnet) option) \<Rightarrow> (nat \<Rightarrow> real)
     \<Rightarrow> (error + (qnet \<times> (string \<times> string) list) option) option" where
  "reduce_graph Q pair_method percolation_prob reduction_method rng =
     (case percolate Q percolation_prob pair_method rng of
        (P, pairs) \<Rightarrow>
          (case pairs_connected P pairs of
             Inl e \<Rightarrow> Some (Inl e)
           | Inr linked \<Rightarrow>
               if linked then
                 (case pairs of
                    [] \<Rightarrow> Some (Inl IndexError)
                  | (u, v) # _ \<Rightarrow>
                      (case reduction_method P u v of
                         None \<Rightarrow> None
                       | Some (Inl e) \<Rightarrow> Some (Inl e)
                       | Some (Inr R) \<Rightarrow> Some (Inr (Some (R, pairs)))))
               else Some (Inr None)))"

section \<open>MonteCarlo.py: the probability grid of \<open>monte_method\<close>\<close>

text \<open>
  \<open>numpy.linspace(start, stop, num)\<close> with its default \<open>endpoint=True\<close>: a negative
  \<open>num\<close> raises ValueError; otherwise \<open>arange(0, num) * step + start\<close> with
  \<open>step = (stop - start) / (num - 1)\<close> (the bare difference when \<open>num - 1\<close> is
  not positive), and the last entry overwritten by \<open>stop\<close> when \<open>num > 1\<close>. This
  is the grid in exact arithmetic: numpy rounds every entry to a double, and a
  difference \<open>stop - start\<close> that overflows leaves entries that are not numbers.
\<close>

definition linspace :: "real \<Rightarrow> real \<Rightarrow> int \<Rightarrow> error + real list" where
  "linspace start stop num =
     (if num < 0 then Inl ValueError
      else
        let dv = num - 1;
            delta = stop - start;
            y = map (\<lambda>i. (if 0 < dv then real i * (delta / real_of_int dv)
                           else real i * delta) + start) [0..<nat num]
        in Inr (if 1 < num then y[nat dv := stop] else y))"

text \<open>
  A pandas DataFrame over the index \<open>range(n)\<close>: the column labels and one dictionary
  of filled cells per row (a label missing from a row's dictionary is a NaN cell).
  \<open>df.at[i, name] = v\<close> fills one cell, adding the column when the label is new.
\<close>

record dataframe =
  columns :: "string list"
  cells :: "(string \<times> real) list list"

definition df_at_set :: "dataframe \<Rightarrow> nat \<Rightarrow> string \<Rightarrow> real \<Rightarrow> dataframe" where
  "df_at_set df i label v =
     df\<lparr>columns := (if label \<in> set (columns df) then columns df else columns df @ [label]),
        cells := (cells df)[i := dict_set (cells df ! i) label v]\<rparr>"

definition p_column :: "dataframe \<Rightarrow> real option list" where
  "p_column df = map (\<lambda>r. map_of r ''p'') (cells df)"

text \<open>
  Lines 209-213: the labels \<open>p\<close>, then \<open>key\<close> and \<open>key (std)\<close> for every key of the
  template cost vector \<open>Q.cost_vector\<close>.
\<close>

definition column_labels :: "string list \<Rightarrow> string list" where
  "column_labels cost_names = ''p'' # concat (map (\<lambda>key. [key, key @ '' (std)'']) cost_names)"

text \<open>
  Lines 221-242, the loop over \<open>enumerate(prob_list)\<close>. What one round computes
  (\<open>generate_graphs\<close>, \<open>data_method\<close> on every sample, the pandas mean and standard
  error) is the parameter \<open>point\<close>: from the index and the probability, the named values
  the round writes into row \<open>index\<close> with \<open>main.at[index, name] = val\<close> (the name is \<open>label\<close> here), or the
  exception it raises.
\<close>

fun monte_rows ::
  "(nat \<Rightarrow> real \<Rightarrow> error + (string \<times> real) list) \<Rightarrow> nat \<Rightarrow> real list \<Rightarrow> dataframe
     \<Rightarrow> error + dataframe" where
  "monte_rows point index [] main = Inr main"
| "monte_rows point index (p # ps) main =
     (case point index p of
        Inl e \<Rightarrow> Inl e
      | Inr vals \<Rightarrow>
          monte_rows point (Suc index) ps
            (foldl (\<lambda>df (label, val). df_at_set df index label val) main vals))"

text \<open>
  \<open>monte_method\<close> (lines 202-243). \<open>cost_names\<close> are the keys of \<open>Q.cost_vector\<close>.
  The assertion of line 204 tests the lower end against 0 and the upper end against 1,
  nothing else. The frame is built over \<open>range(len(prob_list))\<close> and its column
  \<open>p\<close> filled from \<open>prob_list\<close> before the loop runs.
\<close>

definition monte_method ::
  "string list \<Rightarrow> (nat \<Rightarrow> real \<Rightarrow> error + (string \<times> real) list) \<Rightarrow> int
     \<Rightarrow> (real \<times> real) option \<Rightarrow> error + dataframe" where
  "monte_method cost_names point num_steps percolation_range =
     (case (case percolation_range of
              Some (lo, hi) \<Rightarrow>
                if 0 \<le> lo \<and> hi \<le> 1 then linspace lo hi num_steps else Inl AssertionError
            | None \<Rightarrow> linspace 0 1 num_steps) of
        Inl e \<Rightarrow> Inl e
      | Inr prob_list \<Rightarrow>
          monte_rows point 0 prob_list
            \<lparr>columns = column_labels cost_names,
             cells = map (\<lambda>p. [(''p'', p)]) prob_list\<rparr>)"

section \<open>Concrete networks\<close>

text \<open>
  Small networks on which the functions above are run. The conversion pair of every
  registered dimension is \<open>x \<mapsto> 1 - x\<close> in both directions, so a plain value and its
  additive form determine each other.
\<close>

definition one_minus :: "string \<Rightarrow> ((real \<Rightarrow> real) \<times> (real \<Rightarrow> real)) option" where
  "one_minus cost_type =
     (if cost_type \<in> {''e'', ''f'', ''x''} then Some (\<lambda>x. 1 - x, \<lambda>a. 1 - a) else None)"

definition qnode_of :: "string \<Rightarrow> qnode_type \<Rightarrow> real \<Rightarrow> qnode" where
  "qnode_of n t p = \<lparr>name = n, kind = t, costs = [], swap_prob = p\<rparr>"

definition half_link :: cost_vector where
  "half_link = [(''e'', Num (1/2)), (''f'', Num (1/2)), (''add_e'', Num (1/2)), (''add_f'', Num (1/2))]"

text \<open>Two nodes and no edge.\<close>

definition no_link :: qnet where
  "no_link = \<lparr>nodes = [qnode_of ''A'' Plain 1, qnode_of ''B'' Plain 1], edges = [],
               conversions = one_minus\<rparr>"

text \<open>One edge between A and B, with a third cost dimension \<open>x\<close> beside \<open>e\<close> and \<open>f\<close>.\<close>

definition link_with_x :: cost_vector where
  "link_with_x = half_link @ [(''x'', Num (1/4)), (''add_x'', Num (3/4))]"

definition one_link :: qnet where
  "one_link = \<lparr>nodes = [qnode_of ''A'' Plain 1, qnode_of ''B'' Plain 1],
                edges = [(''A'', ''B'', 0, link_with_x)],
                conversions = one_minus\<rparr>"

text \<open>
  The path from A to B along the edge of the given key, with the given cost vector.
\<close>

definition direct_path :: "nat \<Rightarrow> cost_vector \<Rightarrow> path" where
  "direct_path key cv =
     \<lparr>node_array = [qnode_of ''A'' Plain 1, qnode_of ''B'' Plain 1], edge_keys = [key],
      cost_vector = cv\<rparr>"

text \<open>An edge between A and B, and a side edge from A to a third node C.\<close>

definition side_link :: qnet where
  "side_link = \<lparr>nodes = [qnode_of ''A'' Plain 1, qnode_of ''B'' Plain 1, qnode_of ''C'' Plain 1],
                 edges = [(''A'', ''B'', 0, half_link), (''A'', ''C'', 0, half_link)],
                 conversions = one_minus\<rparr>"

text \<open>Two parallel edges between A and B.\<close>

definition two_links :: qnet where
  "two_links = \<lparr>nodes = [qnode_of ''A'' Plain 1, qnode_of ''B'' Plain 1],
                 edges = [(''A'', ''B'', 0, half_link), (''A'', ''B'', 1, half_link)],
                 conversions = one_minus\<rparr>"

text \<open>One edge whose dictionary has the additive form \<open>add_e\<close> only.\<close>

definition additive_only :: qnet where
  "additive_only = \<lparr>nodes = [qnode_of ''A'' Plain 1, qnode_of ''B'' Plain 1],
                     edges = [(''A'', ''B'', 0, [(''add_e'', Num (1/2))])],
                     conversions = one_minus\<rparr>"

text \<open>
  A chain G1 - S1 - S2 - G2: two ground nodes with two swappers between them, of swap
  probabilities 1/2 and 1/4; every edge has efficiency and fidelity 1 (additive form 0).
\<close>

definition unit_link :: cost_vector where
  "unit_link = [(''e'', Num 1), (''f'', Num 1), (''add_e'', Num 0), (''add_f'', Num 0)]"

definition two_swappers :: qnet where
  "two_swappers =
     \<lparr>nodes = [qnode_of ''G1'' Ground 1, qnode_of ''S1'' Swapper (1/2),
               qnode_of ''S2'' Swapper (1/4), qnode_of ''G2'' Ground 1],
      edges = [(''G1'', ''S1'', 0, unit_link), (''S1'', ''S2'', 0, unit_link),
               (''S2'', ''G2'', 0, unit_link)],
      conversions = one_minus\<rparr>"

text \<open>The path from G1 to G2 in \<open>two_swappers\<close>, as \<open>Path_init\<close> builds it.\<close>

definition swapper_chain :: path where
  "swapper_chain =
     \<lparr>node_array = [qnode_of ''G1'' Ground 1, qnode_of ''S1'' Swapper (1/2),
                    qnode_of ''S2'' Swapper (1/4), qnode_of ''G2'' Ground 1],
      edge_keys = [0, 0, 0], cost_vector = unit_link\<rparr>"

text \<open>Four nodes, and a pair method that selects the two pairs (A, B) and (C, D).\<close>

definition four_nodes :: qnet where
  "four_nodes = \<lparr>nodes = [qnode_of ''A'' Plain 1, qnode_of ''B'' Plain 1,
                           qnode_of ''C'' Plain 1, qnode_of ''D'' Plain 1],
                  edges = [], conversions = one_minus\<rparr>"

definition two_pairs :: "qnet \<Rightarrow> (string \<times> string) list" where
  "two_pairs Q = [(''A'', ''B''), (''C'', ''D'')]"

section \<open>Properties of the probability grid\<close>

lemma map_of_dict_set_other: "k' \<noteq> k \<Longrightarrow> map_of (dict_set d k v) k' = map_of d k'"
  by (induction d) auto

lemma map_of_dict_set_same: "map_of (dict_set d k v) k = Some v"
  by (induction d) auto

lemma linspace_length: "linspace a b n = Inr ys \<Longrightarrow> length ys = nat n"
  by (auto simp: linspace_def Let_def split: if_splits)

lemma linspace_nth:
  assumes "linspace a b n = Inr ys" and "i < nat n"
  shows "ys ! i = a + real i * ((b - a) / real_of_int (n - 1))"
proof (cases "1 < n")
  case True
  define y where "y = map (\<lambda>i. real i * ((b - a) / real_of_int (n - 1)) + a) [0..<nat n]"
  from assms(1) True have ys: "ys = y[nat (n - 1) := b]"
    by (auto simp: linspace_def Let_def y_def split: if_splits)
  show ?thesis
  proof (cases "i = nat (n - 1)")
    case True
    with \<open>1 < n\<close> have "real i = real_of_int (n - 1)" by simp
    moreover from \<open>1 < n\<close> have "real_of_int (n - 1) \<noteq> 0" by simp
    ultimately have "a + real i * ((b - a) / real_of_int (n - 1)) = b" by simp
    moreover from True assms(2) have "ys ! i = b" by (simp add: ys y_def)
    ultimately show ?thesis by simp
  next
    case False
    with assms(2) show ?thesis by (simp add: ys y_def add.commute)
  qed
next
  case False
  with assms(2) have n: "n = 1" and i: "i = 0" by auto
  from assms(1) n have "ys = [a]" by (simp add: linspace_def Let_def)
  with i n show ?thesis by simp
qed

lemma linspace_sorted:
  assumes "linspace a b n = Inr ys" and "a \<le> b"
  shows "sorted ys"
proof -
  define d where "d = (b - a) / real_of_int (n - 1)"
  have len: "length ys = nat n" using assms(1) by (rule linspace_length)
  have "ys ! i \<le> ys ! j" if "i \<le> j" "j < length ys" for i j
  proof -
    from that len have i: "i < nat n" and j: "j < nat n" by auto
    have "0 \<le> d"
      unfolding d_def using assms(2) j by (cases "1 < n") (auto simp: divide_nonneg_nonneg)
    moreover from that(1) have "real i \<le> real j" by simp
    ultimately have "real i * d \<le> real j * d" by (simp add: mult_right_mono)
    then show ?thesis
      unfolding d_def by (simp only: linspace_nth[OF assms(1) i] linspace_nth[OF assms(1) j] add_le_cancel_left)
  qed
  then show ?thesis by (simp add: sorted_iff_nth_mono)
qed

lemma map_lookup_df_at_set:
  assumes "label \<noteq> k"
  shows "map (\<lambda>r. map_of r k) (cells (df_at_set df i label v)) = map (\<lambda>r. map_of r k) (cells df)"
proof (cases "i < length (cells df)")
  case True
  then show ?thesis
    using assms by (simp add: df_at_set_def map_update map_of_dict_set_other list_update_same_conv)
next
  case False
  then have "(cells df)[i := dict_set (cells df ! i) label v] = cells df"
    by (simp add: list_update_beyond)
  then show ?thesis by (simp add: df_at_set_def)
qed

lemma df_at_set_p_column:
  "label \<noteq> ''p'' \<Longrightarrow> p_column (df_at_set df i label v) = p_column df"
  unfolding p_column_def by (rule map_lookup_df_at_set)

lemma foldl_df_at_set_p_column:
  "''p'' \<notin> fst ` set vals \<Longrightarrow>
   p_column (foldl (\<lambda>df (label, val). df_at_set df i label val) df vals) = p_column df"
  by (induction vals arbitrary: df) (auto simp: df_at_set_p_column)

lemma monte_rows_p_column:
  assumes "\<forall>i p vals. point i p = Inr vals \<longrightarrow> ''p'' \<notin> fst ` set vals"
  shows "monte_rows point index ps main = Inr df \<Longrightarrow> p_column df = p_column main"
proof (induction ps arbitrary: index main)
  case Nil
  then show ?case by simp
next
  case (Cons p ps)
  from Cons.prems obtain vals where v: "point index p = Inr vals"
    and r: "monte_rows point (Suc index) ps
              (foldl (\<lambda>df (label, val). df_at_set df index label val) main vals) = Inr df"
    by (auto split: sum.splits)
  from assms v have "''p'' \<notin> fst ` set vals" by blast
  with Cons.IH[OF r] show ?case by (simp add: foldl_df_at_set_p_column)
qed

lemma monte_rows_total:
  "\<forall>j<length ps. \<exists>vals. point (index + j) (ps ! j) = Inr vals \<Longrightarrow>
   \<exists>df. monte_rows point index ps main = Inr df"
proof (induction ps arbitrary: index main)
  case Nil
  then show ?case by simp
next
  case (Cons p ps)
  from Cons.prems have "\<exists>vals. point (index + 0) ((p # ps) ! 0) = Inr vals" by blast
  then obtain vals where v: "point index p = Inr vals" by auto
  have "\<forall>j<length ps. \<exists>vals. point (Suc index + j) (ps ! j) = Inr vals"
  proof (intro allI impI)
    fix j assume "j < length ps"
    then have "Suc j < length (p # ps)" by simp
    with Cons.prems have "\<exists>vals. point (index + Suc j) ((p # ps) ! Suc j) = Inr vals" by blast
    then show "\<exists>vals. point (Suc index + j) (ps ! j) = Inr vals" by simp
  qed
  from Cons.IH[OF this] show ?case by (simp add: v)
qed

section \<open>Evaluating the model on concrete networks\<close>

lemmas net_defs = qnode_of_def half_link_def link_with_x_def unit_link_def one_minus_def

lemmas graph_defs =
  getNode_def get_edge_data_def has_edge_def joins_def edge_key_def edge_data_def

lemmas path_defs =
  Path_init_def get_cost_vector_def sum_cost_vectors_def counter_update_def
  startswith_def remove_prefix_def

section \<open>Percolation with probability 0, and with a single pair\<close>

text \<open>
  With draws that are not negative, \<open>prob = 0\<close> deletes nothing. A node is drawn for
  deletion only when some selected pair does not contain it, so with a single pair
  selected the two nodes of that pair are kept.
\<close>

lemma kill_list_prob_zero:
  "\<forall>i. 0 \<le> rng i \<Longrightarrow> kill_list pairs 0 rng k ns = []"
  by (induction ns arbitrary: k) (auto simp: not_less)

lemma percolate_prob_zero:
  "\<forall>i. 0 \<le> rng i \<Longrightarrow> fst (percolate Q 0 pair_method rng) = Q"
  by (simp add: percolate_def Let_def kill_list_prob_zero remove_nodes_from_def split_def)

lemma kill_list_in_every_pair:
  "n \<in> set (kill_list pairs prob rng k ns) \<Longrightarrow> \<exists>item \<in> set pairs. \<not> in_pair n item"
  by (induction ns arbitrary: k) (auto simp: list_ex_iff split: if_splits)

lemma percolate_single_pair:
  assumes "pair_method Q = [pair]" and "x \<in> set (nodes Q)" and "in_pair (name x) pair"
  shows "x \<in> set (nodes (fst (percolate Q prob pair_method rng)))"
  using assms kill_list_in_every_pair[of "name x" "[pair]" prob rng 0 "nodes Q"]
  by (auto simp: percolate_def Let_def remove_nodes_from_def)

section \<open>C3: \<open>percolate\<close> and the nodes of the selected pairs\<close>

text \<open>
  C3 says that \<open>percolate\<close> never deletes a node of a selected communication pair,
  however many pairs are selected. The code does: with the two pairs (A, B) and (C, D)
  selected, every node is missing from one of the pairs, so the test of line 53 lets
  every node be drawn for deletion; with \<open>prob = 1\<close> each draw below 1 deletes its
  node, and all four pair nodes are gone.
\<close>

theorem percolate_two_pairs:
  "fst (percolate four_nodes 1 two_pairs (\<lambda>k. 0))
   = \<lparr>nodes = [], edges = [], conversions = one_minus\<rparr>"
  by (simp add: percolate_def two_pairs_def four_nodes_def remove_nodes_from_def in_pair_def
      qnode_of_def)

section \<open>C4: \<open>swap_path\<close> and the swappers between two ground nodes\<close>

text \<open>
  C4 says that the efficiency is multiplied by the swap probability of every swapper
  that has a ground node on both of its sides. On the chain G1 - S1 - S2 - G2 both
  swappers have one, and the product is 1/2 * 1/4 = 1/8. The code remembers one swapper
  only: S2 replaces S1 before G2 is reached, and the efficiency 1 of the path comes
  back as 1/4.
\<close>

theorem swap_path_two_swappers:
  "(case Path_init two_swappers [''G1'', ''S1'', ''S2'', ''G2''] None of
      Inl e \<Rightarrow> Inl e
    | Inr p \<Rightarrow> swap_path p)
   = Inr [(''e'', Num (1/4)), (''f'', Num 1), (''add_e'', Num 0), (''add_f'', Num 0)]"
  by (simp add: two_swappers_def net_defs graph_defs path_defs swap_path_def numeral_3_eq_3)

section \<open>C6: path construction with an edge key the graph does not have\<close>

text \<open>
  C6 says that a key missing on an existing node pair is a construction error. The
  network \<open>one_link\<close> has the single edge (A, B) under key 0. Constructing the path A - B
  with key 5 succeeds: \<open>get_edge_data\<close> gives \<open>None\<close>, the counter ignores it, the
  check of lines 53-57 looks at the node pair only, and the path's cost vector is
  empty.
\<close>

theorem Path_init_missing_key:
  "Path_init one_link [''A'', ''B''] (Some [5])
   = Inr \<lparr>node_array = [qnode_of ''A'' Plain 1, qnode_of ''B'' Plain 1], edge_keys = [5],
           cost_vector = []\<rparr>"
  by (simp add: one_link_def net_defs graph_defs path_defs)

section \<open>C7: an additive dimension without its plain counterpart\<close>

text \<open>
  C7 says that for an additive-marked dimension with no plain counterpart the
  aggregation writes the regenerated plain value and returns. In \<open>additive_only\<close> the
  edge has \<open>add_e\<close> and no \<open>e\<close>, and \<open>e\<close> has a registered conversion. Writing
  \<open>new_cv['e']\<close> inside the loop over \<open>new_cv\<close> adds a key, and the loop's next step
  raises RuntimeError: no path is constructed.
\<close>

theorem Path_init_additive_only:
  "Path_init additive_only [''A'', ''B''] None = Inl RuntimeError"
  by (simp add: additive_only_def net_defs graph_defs path_defs)

section \<open>Removing the edges of a path\<close>












lemma has_path_InrD:
  "has_path Q (Some head) (Some tail) = Inr b \<Longrightarrow>
   head \<in> name ` set (nodes Q) \<and> tail \<in> name ` set (nodes Q)"
  by (auto simp: has_path_def split: if_splits)

lemma node_ref_node: "n \<in> name ` set (nodes Q) \<Longrightarrow> node_ref Q n = Some n"
proof -
  assume "n \<in> name ` set (nodes Q)"
  then obtain x where "find (\<lambda>x. name x = n) (nodes Q) = Some x"
    by (cases "find (\<lambda>x. name x = n) (nodes Q)") (auto simp: find_None_iff)
  moreover from this have "name x = n" by (auto simp: find_Some_iff)
  ultimately show ?thesis by (simp add: node_ref_def getNode_def)
qed

lemma node_ref_no_node: "n \<notin> name ` set (nodes Q) \<Longrightarrow> node_ref Q n = None"
  by (auto simp: node_ref_def getNode_def find_None_iff)

section \<open>The extraction loop of \<open>purify_reduce\<close> returns\<close>


section \<open>The combined cost vector is computed\<close>


















section \<open>The reductions on concrete networks\<close>

text \<open>
  The steps of \<open>purify_reduce\<close> on \<open>one_link\<close>, with the spec-modelled \<open>best_path\<close>
  as the search: one path is found and removed, and the new edge is added to the
  working copy, which by then has no other edge.
\<close>

lemma cost_vector_direct_path: "cost_vector (direct_path key cv) = cv"
  by (simp add: direct_path_def)

lemma node_ref_one_link:
  "node_ref one_link ''A'' = Some ''A''" "node_ref one_link ''B'' = Some ''B''"
  by (simp_all add: node_ref_def getNode_def one_link_def qnode_of_def)

lemma has_path_one_link: "has_path one_link (Some ''A'') (Some ''B'') = Inr True"
  by (simp add: has_path_def one_link_def qnode_of_def neighbors_def eval_nat_numeral)

lemma has_path_no_edges:
  "has_path (one_link\<lparr>edges := []\<rparr>) (Some ''A'') (Some ''B'') = Inr False"
  by (simp add: has_path_def one_link_def qnode_of_def neighbors_def eval_nat_numeral)

lemma best_path_one_link:
  "best_path one_link (Some ''A'') (Some ''B'') ''f'' = Inr (direct_path 0 link_with_x)"
  by (simp add: best_path_def one_link_def net_defs graph_defs path_defs cost_of_def
      direct_path_def link_with_x_def eval_nat_numeral)

lemma remove_edges_one_link:
  "remove_edges one_link (direct_path 0 cv) = Inr (one_link\<lparr>edges := []\<rparr>)"
  by (simp add: remove_edges_def direct_path_def one_link_def net_defs remove_edge_def joins_def edge_key_def)

lemma purify_loop_one_link:
  "purify_loop best_path None (Some ''A'') (Some ''B'') one_link [] 0
   = Some (Inr (one_link\<lparr>edges := []\<rparr>, [link_with_x], 1))"
  apply (subst purify_loop.simps)
  apply (simp add: has_path_one_link best_path_one_link remove_edges_one_link
      cost_vector_direct_path over_threshold_def)
  apply (subst purify_loop.simps)
  apply (simp add: has_path_no_edges)
  done

lemma purify_cost_vector_one_link:
  "purify_cost_vector fidTransform one_minus [link_with_x] (Suc 0) prob
   = Inr [(''f'', Num (1/2)), (''add_f'', Num (1/2)), (''e'', Num (1/2)), (''add_e'', Num (1/2)),
          (''add_x'', Num (3/4)), (''x'', Func (\<lambda>a. 1 - a))]"
  by (simp add: purify_cost_vector_def Let_def link_with_x_def net_defs py_reduce_def py_min_def
      convert_to_add_def sum_cost_vectors_def counter_update_def startswith_def remove_prefix_def)

lemma purify_reduce_one_link:
  "purify_reduce best_path fidTransform one_link ''A'' ''B'' None prob
   = Some (Inr (one_link\<lparr>edges := [(''A'', ''B'', 0,
        [(''f'', Num (1/2)), (''add_f'', Num (1/2)), (''e'', Num (1/2)), (''add_e'', Num (1/2)),
          (''add_x'', Num (3/4)), (''x'', Func (\<lambda>a. 1 - a))])]\<rparr>))"
proof -
  have c: "conversions one_link = one_minus" by (simp add: one_link_def)
  show ?thesis
    by (simp add: purify_reduce_def threshold_ok_def node_ref_one_link purify_loop_one_link c
        purify_cost_vector_one_link add_qchan_def new_edge_key_def)
qed

lemma extractable_one_link: "extractable best_path one_link (Some ''A'') (Some ''B'')"
proof -
  have c: "conversions one_link = one_minus" by (simp add: one_link_def)
  have "purifiable one_minus link_with_x"
    by (simp add: purifiable_def item_ok_def is_num_def link_with_x_def net_defs startswith_def remove_prefix_def)
  moreover have "length (edges (one_link\<lparr>edges := []\<rparr>)) < length (edges one_link)"
    by (simp add: one_link_def)
  ultimately show ?thesis
    by (simp add: extractable_def best_path_one_link remove_edges_one_link c cost_vector_direct_path)
qed

text \<open>The steps on \<open>two_links\<close>.\<close>

lemma has_path_two_links: "has_path two_links (Some ''A'') (Some ''B'') = Inr True"
  by (simp add: has_path_def two_links_def qnode_of_def neighbors_def eval_nat_numeral)

lemma best_path_two_links:
  "best_path two_links (Some ''A'') (Some ''B'') ''f'' = Inr (direct_path 0 half_link)"
  by (simp add: best_path_def two_links_def net_defs graph_defs path_defs cost_of_def
      direct_path_def eval_nat_numeral)

lemma remove_edges_two_links:
  "remove_edges two_links (direct_path 0 cv)
   = Inr (two_links\<lparr>edges := [(''A'', ''B'', Suc 0, half_link)]\<rparr>)"
  by (simp add: remove_edges_def direct_path_def two_links_def net_defs remove_edge_def
      joins_def edge_key_def)

lemma has_path_second_link:
  "has_path (two_links\<lparr>edges := [(''A'', ''B'', Suc 0, half_link)]\<rparr>) (Some ''A'') (Some ''B'') = Inr True"
  by (simp add: has_path_def two_links_def qnode_of_def neighbors_def eval_nat_numeral)

lemma best_path_second_link:
  "best_path (two_links\<lparr>edges := [(''A'', ''B'', Suc 0, half_link)]\<rparr>) (Some ''A'') (Some ''B'') ''f''
   = Inr (direct_path (Suc 0) half_link)"
  by (simp add: best_path_def two_links_def net_defs graph_defs path_defs cost_of_def
      direct_path_def eval_nat_numeral)

lemma remove_edges_second_link:
  "remove_edges (two_links\<lparr>edges := [(''A'', ''B'', Suc 0, half_link)]\<rparr>) (direct_path (Suc 0) cv)
   = Inr (two_links\<lparr>edges := []\<rparr>)"
  by (simp add: remove_edges_def direct_path_def two_links_def net_defs remove_edge_def
      joins_def edge_key_def)

lemma has_path_no_links_left:
  "has_path (two_links\<lparr>edges := []\<rparr>) (Some ''A'') (Some ''B'') = Inr False"
  by (simp add: has_path_def two_links_def qnode_of_def neighbors_def eval_nat_numeral)

text \<open>The network without an edge.\<close>

lemma purify_loop_no_path:
  "has_path Q head tail = Inr False \<Longrightarrow>
   purify_loop bp threshold head tail Q cv_list n = Some (Inr (Q, cv_list, n))"
  by (subst purify_loop.simps) simp

lemma purify_cost_vector_empty:
  "purify_cost_vector fidTransform conv [] n prob = Inl TypeError"
  by (simp add: purify_cost_vector_def py_reduce_def)

lemma node_ref_no_link:
  "node_ref no_link ''A'' = Some ''A''" "node_ref no_link ''B'' = Some ''B''"
  by (simp_all add: node_ref_def getNode_def no_link_def qnode_of_def)

lemma has_path_no_link: "has_path no_link (Some ''A'') (Some ''B'') = Inr False"
  by (simp add: has_path_def no_link_def qnode_of_def neighbors_def eval_nat_numeral)

text \<open>The steps of \<open>swap_reduce\<close> on \<open>two_swappers\<close>.\<close>

lemma node_ref_two_swappers:
  "node_ref two_swappers ''G1'' = Some ''G1''" "node_ref two_swappers ''G2'' = Some ''G2''"
  by (simp_all add: node_ref_def getNode_def two_swappers_def qnode_of_def)

lemma has_path_two_swappers: "has_path two_swappers (Some ''G1'') (Some ''G2'') = Inr True"
  by (simp add: has_path_def two_swappers_def qnode_of_def neighbors_def eval_nat_numeral)

lemma simple_paths_two_swappers:
  "simple_paths (length (nodes two_swappers)) two_swappers [] ''G1'' ''G2''
   = [([''G1'', ''S1'', ''S2'', ''G2''], [0, 0, 0])]"
  by (simp add: two_swappers_def qnode_of_def eval_nat_numeral)

lemma best_path_two_swappers:
  "best_path two_swappers (Some ''G1'') (Some ''G2'') ''e'' = Inr swapper_chain"
  unfolding best_path_def simple_paths_two_swappers
  by (simp add: two_swappers_def net_defs graph_defs path_defs cost_of_def swapper_chain_def)

lemma swap_path_chain: "swap_path swapper_chain = Inr [(''e'', Num (1/4)), (''f'', Num 1), (''add_e'', Num 0), (''add_f'', Num 0)]"
  by (simp add: swapper_chain_def swap_path_def net_defs)

lemma remove_edges_chain: "remove_edges two_swappers swapper_chain = Inr (two_swappers\<lparr>edges := []\<rparr>)"
  by (simp add: remove_edges_def swapper_chain_def two_swappers_def net_defs remove_edge_def joins_def edge_key_def)

lemma has_path_after: "has_path (two_swappers\<lparr>edges := []\<rparr>) (Some ''G1'') (Some ''G2'') = Inr False"
  by (simp add: has_path_def two_swappers_def qnode_of_def neighbors_def eval_nat_numeral)

lemma swap_loop_two_swappers:
  "swap_loop best_path (Some ''G1'') (Some ''G2'') two_swappers []
   = Some (Inr (two_swappers\<lparr>edges := []\<rparr>, [[(''e'', Num (1/4)), (''f'', Num 1), (''add_e'', Num 0), (''add_f'', Num 0)]]))"
  apply (subst swap_loop.simps)
  apply (simp add: has_path_two_swappers best_path_two_swappers swap_path_chain remove_edges_chain)
  apply (subst swap_loop.simps)
  apply (simp add: has_path_after)
  done

section \<open>The key of the new edge is fresh\<close>



section \<open>The steps on the network with a side edge\<close>

lemma node_ref_side_link:
  "node_ref side_link ''A'' = Some ''A''" "node_ref side_link ''B'' = Some ''B''"
  by (simp_all add: node_ref_def getNode_def side_link_def qnode_of_def)













section \<open>C1: the graph \<open>purify_reduce\<close> returns\<close>




section \<open>C2: \<open>purify_reduce\<close> on a snapshot without a path\<close>

text \<open>
  Whenever head and tail are nodes of the snapshot with no path between them, and the
  threshold passes its assertions, the loop of \<open>purify_reduce\<close> ends at once with no
  path recorded, and line 52 raises TypeError. The sibling \<open>swap_reduce\<close> returns
  the copy on such a snapshot.
\<close>

lemma purify_reduce_without_path:
  assumes "has_path Q (Some head) (Some tail) = Inr False" and "threshold_ok threshold"
  shows "purify_reduce bp fidTransform Q head tail threshold prob = Some (Inl TypeError)"
proof -
  from has_path_InrD[OF assms(1)]
  have "node_ref Q head = Some head" "node_ref Q tail = Some tail"
    by (simp_all add: node_ref_node)
  then show ?thesis
    by (simp add: purify_reduce_def assms purify_loop_no_path purify_cost_vector_empty)
qed

lemma swap_reduce_no_link:
  "swap_reduce best_path no_link ''A'' ''B'' None = Some (Inr no_link)"
proof -
  have "swap_loop best_path (Some ''A'') (Some ''B'') no_link [] = Some (Inr (no_link, []))"
    by (subst swap_loop.simps) (simp add: has_path_no_link)
  then show ?thesis
    by (simp add: swap_reduce_def threshold_ok_def node_ref_no_link)
qed

text \<open>
  C2 says that on a snapshot without a path between head and tail \<open>purify_reduce\<close>
  returns the failure sentinel, raises nothing, and attempts no reduce over an empty
  list of fidelities. On the network of two nodes without an edge the loop records
  nothing, the \<open>reduce\<close> of line 52 runs over the empty list, and the call raises
  TypeError.
\<close>

theorem purify_reduce_no_path_raises:
  "has_path no_link (Some ''A'') (Some ''B'') = Inr False
   \<and> purify_loop best_path None (Some ''A'') (Some ''B'') no_link [] 0
     = Some (Inr (no_link, [], 0))
   \<and> purify_reduce best_path (\<lambda>f1 f2. f1 * f2) no_link ''A'' ''B'' None (1/2)
     = Some (Inl TypeError)"
  by (simp add: has_path_no_link purify_reduce_def threshold_ok_def node_ref_no_link
      purify_loop_no_path purify_cost_vector_empty)

section \<open>C5: the threshold of \<open>purify_reduce\<close>\<close>

text \<open>
  C5 says that with threshold \<open>t\<close> at most \<open>t\<close> paths are purified. On \<open>two_links\<close>
  with threshold 1 the loop records two cost vectors and removes both edges: the test
  of line 40 is \<open>path_counter > threshold\<close>, which a counter equal to the threshold
  passes.
\<close>

theorem purify_loop_threshold_one:
  "purify_loop best_path (Some 1) (Some ''A'') (Some ''B'') two_links [] 0
   = Some (Inr (two_links\<lparr>edges := []\<rparr>, [half_link, half_link], 2))"
  apply (subst purify_loop.simps)
  apply (simp add: has_path_two_links best_path_two_links remove_edges_two_links
      cost_vector_direct_path over_threshold_def)
  apply (subst purify_loop.simps)
  apply (simp add: has_path_second_link best_path_second_link remove_edges_second_link
      cost_vector_direct_path over_threshold_def)
  apply (subst purify_loop.simps)
  apply (simp add: has_path_no_links_left)
  done

section \<open>C8: the other cost dimensions of the new edge\<close>

text \<open>
  C8 says that the plain form of every other dimension is the inverse conversion
  applied to the additive sum, a number. On \<open>one_link\<close> the edge has the dimension
  \<open>x\<close> with \<open>add_x = 3/4\<close>. The new edge carries \<open>add_x = 3/4\<close>, and under
  \<open>x\<close> the conversion function itself (line 86 takes \<open>Q.conversions[cost_type][1]\<close>
  and does not call it), not the number 1 - 3/4.
\<close>

theorem purify_reduce_plain_form_is_function:
  "map_option (map_sum id (\<lambda>R. map edge_data (edges R)))
     (purify_reduce best_path fidTransform one_link ''A'' ''B'' None prob)
   = Some (Inr [[(''f'', Num (1/2)), (''add_f'', Num (1/2)), (''e'', Num (1/2)),
                 (''add_e'', Num (1/2)), (''add_x'', Num (3/4)), (''x'', Func (\<lambda>a. 1 - a))]])"
  by (simp add: purify_reduce_one_link edge_data_def)

section \<open>C10: the threshold of \<open>swap_reduce\<close>\<close>

text \<open>
  C10. For every snapshot, head, tail and positive integer \<open>k\<close>, \<open>swap_reduce\<close>
  with threshold \<open>k\<close> has the same outcome as \<open>swap_reduce\<close> without a threshold:
  the same reduced graph when it returns one, and the same exception or the same
  failure to return otherwise.
\<close>

theorem swap_reduce_threshold:
  "0 < k \<Longrightarrow> swap_reduce bp Q head tail (Some k) = swap_reduce bp Q head tail None"
  by (simp add: swap_reduce_def threshold_ok_def)

text \<open>
  Witness for C10, on \<open>two_swappers\<close> with threshold 1: both calls return the
  network in which the chain is replaced by one edge from G1 to G2.
\<close>

theorem swap_reduce_threshold_witness:
  "swap_reduce best_path two_swappers ''G1'' ''G2'' (Some 1)
     = swap_reduce best_path two_swappers ''G1'' ''G2'' None
   \<and> swap_reduce best_path two_swappers ''G1'' ''G2'' None
     = Some (Inr (two_swappers\<lparr>edges :=
         [(''G1'', ''G2'', 0,
           [(''e'', Num (1/4)), (''f'', Num 1), (''add_e'', Num 0), (''add_f'', Num 0)])]\<rparr>))"
proof
  have "(0::int) < 1" by simp
  then show "swap_reduce best_path two_swappers ''G1'' ''G2'' (Some 1)
     = swap_reduce best_path two_swappers ''G1'' ''G2'' None"
    by (rule swap_reduce_threshold)
next
  show "swap_reduce best_path two_swappers ''G1'' ''G2'' None
     = Some (Inr (two_swappers\<lparr>edges :=
         [(''G1'', ''G2'', 0,
           [(''e'', Num (1/4)), (''f'', Num 1), (''add_e'', Num 0), (''add_f'', Num 0)])]\<rparr>))"
    by (simp add: swap_reduce_def threshold_ok_def node_ref_two_swappers swap_loop_two_swappers
        add_qchan_def new_edge_key_def joins_def)
qed

section \<open>C9: rows and probability column of \<open>monte_method\<close>\<close>

text \<open>
  C9 (amended). In exact arithmetic, for every call of \<open>monte_method\<close> whose
  \<open>percolation_range\<close> passes the assertion (or is unset, which stands for the range
  from 0 to 1) and whose rounds write no column named \<open>p\<close>: the table the call
  returns has exactly \<open>num_steps\<close> rows, and its probability column is the evenly
  spaced grid from the first end of the range to the second, row \<open>i\<close> holding
  \<open>lo + i * (hi - lo) / (num_steps - 1)\<close>. The column is non-decreasing when the
  range is given in increasing order, and it starts at \<open>lo\<close> and ends at \<open>hi\<close> when
  there are at least two steps. The call returns a table whenever \<open>num_steps\<close> is not
  negative and the round of every grid point returns.
\<close>

theorem monte_method_grid:
  assumes range: "percolation_range = None \<and> lo = 0 \<and> hi = 1 \<or>
                  percolation_range = Some (lo, hi) \<and> 0 \<le> lo \<and> hi \<le> 1"
    and nop: "\<forall>i p vals. point i p = Inr vals \<longrightarrow> ''p'' \<notin> fst ` set vals"
  shows "(\<forall>df. monte_method cost_names point num_steps percolation_range = Inr df \<longrightarrow>
            0 \<le> num_steps \<and> length (cells df) = nat num_steps
            \<and> (\<exists>ps. p_column df = map Some ps \<and> length ps = nat num_steps
                 \<and> (\<forall>i<nat num_steps.
                       ps ! i = lo + real i * ((hi - lo) / real_of_int (num_steps - 1)))
                 \<and> (lo \<le> hi \<longrightarrow> sorted ps)
                 \<and> (2 \<le> num_steps \<longrightarrow> hd ps = lo \<and> last ps = hi)))
       \<and> (0 \<le> num_steps
          \<and> (\<forall>i<nat num_steps. \<exists>vals.
                point i (lo + real i * ((hi - lo) / real_of_int (num_steps - 1))) = Inr vals)
            \<longrightarrow> (\<exists>df. monte_method cost_names point num_steps percolation_range = Inr df))"
proof (intro conjI allI impI)
  fix df
  assume mm: "monte_method cost_names point num_steps percolation_range = Inr df"
  from mm range obtain ps where ps: "linspace lo hi num_steps = Inr ps"
    and rows: "monte_rows point 0 ps
                 \<lparr>columns = column_labels cost_names, cells = map (\<lambda>p. [(''p'', p)]) ps\<rparr> = Inr df"
    by (auto simp: monte_method_def split: sum.splits)
  from ps show "0 \<le> num_steps" by (auto simp: linspace_def split: if_splits)
  have len: "length ps = nat num_steps" using ps by (rule linspace_length)
  from monte_rows_p_column[OF nop rows] have pc: "p_column df = map Some ps"
    by (simp add: p_column_def comp_def)
  have "length (p_column df) = length (cells df)" by (simp add: p_column_def)
  with pc len show "length (cells df) = nat num_steps" by simp
  have nth: "\<forall>i < nat num_steps. ps ! i = lo + real i * ((hi - lo) / real_of_int (num_steps - 1))"
    using linspace_nth[OF ps] by blast
  have srt: "lo \<le> hi \<longrightarrow> sorted ps" using linspace_sorted[OF ps] by blast
  have ends: "2 \<le> num_steps \<longrightarrow> hd ps = lo \<and> last ps = hi"
  proof
    assume two: "2 \<le> num_steps"
    with len have ne: "ps \<noteq> []" by auto
    from two have 0: "0 < nat num_steps" and 1: "nat num_steps - 1 < nat num_steps" by auto
    have "hd ps = ps ! 0" using ne by (simp add: hd_conv_nth)
    also have "\<dots> = lo" using linspace_nth[OF ps 0] by simp
    finally have h: "hd ps = lo" .
    have r: "real (nat num_steps - 1) = real_of_int (num_steps - 1)" using two by simp
    have nz: "real_of_int (num_steps - 1) \<noteq> 0" using two by simp
    have "last ps = ps ! (nat num_steps - 1)" using ne len by (simp add: last_conv_nth)
    also have "\<dots> = lo + real (nat num_steps - 1) * ((hi - lo) / real_of_int (num_steps - 1))"
      using linspace_nth[OF ps 1] .
    also have "\<dots> = hi" unfolding r using nz by simp
    finally show "hd ps = lo \<and> last ps = hi" using h by simp
  qed
  from pc len nth srt ends
  show "\<exists>ps. p_column df = map Some ps \<and> length ps = nat num_steps
          \<and> (\<forall>i<nat num_steps. ps ! i = lo + real i * ((hi - lo) / real_of_int (num_steps - 1)))
          \<and> (lo \<le> hi \<longrightarrow> sorted ps)
          \<and> (2 \<le> num_steps \<longrightarrow> hd ps = lo \<and> last ps = hi)"
    by blast
next
  assume a: "0 \<le> num_steps
     \<and> (\<forall>i<nat num_steps. \<exists>vals.
           point i (lo + real i * ((hi - lo) / real_of_int (num_steps - 1))) = Inr vals)"
  then obtain ps where ps: "linspace lo hi num_steps = Inr ps"
    by (auto simp: linspace_def Let_def)
  have len: "length ps = nat num_steps" using ps by (rule linspace_length)
  have "\<forall>j<length ps. \<exists>vals. point (0 + j) (ps ! j) = Inr vals"
    using a len linspace_nth[OF ps] by auto
  from monte_rows_total[OF this]
  obtain df where "monte_rows point 0 ps
      \<lparr>columns = column_labels cost_names, cells = map (\<lambda>p. [(''p'', p)]) ps\<rparr> = Inr df"
    by blast
  with range ps show "\<exists>df. monte_method cost_names point num_steps percolation_range = Inr df"
    by (auto simp: monte_method_def)
qed

text \<open>
  Witness for C9: three steps over the range (1/4, 3/4) give the rows 1/4, 1/2, 3/4.
\<close>

theorem monte_method_grid_witness:
  "\<exists>df. monte_method [''e''] (\<lambda>i p. Inr [(''e'', p)]) 3 (Some (1/4, 3/4)) = Inr df
      \<and> length (cells df) = 3
      \<and> p_column df = [Some (1/4), Some (1/2), Some (3/4)]"
proof -
  have nop: "\<forall>i p vals. (Inr [(''e'', p)] :: error + (string \<times> real) list) = Inr vals
               \<longrightarrow> ''p'' \<notin> fst ` set vals"
    by auto
  have rng: "Some (1/4, 3/4) = None \<and> (1/4::real) = 0 \<and> (3/4::real) = 1 \<or>
             Some (1/4, 3/4) = Some (1/4::real, 3/4::real) \<and> (0::real) \<le> 1/4 \<and> (3/4::real) \<le> 1"
    by simp
  note g = monte_method_grid[of "Some (1/4, 3/4)" "1/4" "3/4" "\<lambda>i p. Inr [(''e'', p)]" "[''e'']" 3,
      OF rng nop]
  from g obtain df where
    mm: "monte_method [''e''] (\<lambda>i p. Inr [(''e'', p)]) 3 (Some (1/4, 3/4)) = Inr df"
    by auto
  with g obtain ps where r: "length (cells df) = 3" "p_column df = map Some ps" "length ps = 3"
    "\<forall>i < 3. ps ! i = 1/4 + real i * ((3/4 - 1/4) / 2)"
    by auto
  from r(4) have "ps ! 0 = 1/4" "ps ! Suc 0 = 1/2" "ps ! Suc (Suc 0) = 3/4"
    by (simp_all add: numeral_3_eq_3)
  with r(3) have "ps = [1/4, 1/2, 3/4]"
    by (intro nth_equalityI) (auto simp: less_Suc_eq numeral_3_eq_3)
  with mm r show ?thesis by auto
qed

text \<open>
  C9 as stated fails. The range (1, 0) passes the assertion of line 204 (its lower end
  is at least 0 and its upper end at most 1) and the table's probability column is
  1, 0: decreasing. With one step and no range the column is the single point 0, which
  does not reach 1. And a round that writes a value under the label \<open>p\<close> overwrites
  the probability of its row: with two steps and rounds that write 5 the column is
  5, 5.
\<close>

theorem monte_method_grid_counterexample:
  "monte_method [] (\<lambda>i p. Inr []) 2 (Some (1, 0))
     = Inr \<lparr>columns = [''p''], cells = [[(''p'', 1)], [(''p'', 0)]]\<rparr>
   \<and> p_column \<lparr>columns = [''p''], cells = [[(''p'', 1)], [(''p'', 0)]]\<rparr> = [Some 1, Some 0]
   \<and> \<not> sorted [1 :: real, 0]
   \<and> monte_method [] (\<lambda>i p. Inr []) 1 None
     = Inr \<lparr>columns = [''p''], cells = [[(''p'', 0)]]\<rparr>
   \<and> monte_method [] (\<lambda>i p. Inr [(''p'', 5)]) 2 None
     = Inr \<lparr>columns = [''p''], cells = [[(''p'', 5)], [(''p'', 5)]]\<rparr>"
  by (simp add: monte_method_def linspace_def Let_def column_labels_def p_column_def upt_rec
      df_at_set_def)

end
